theory Spec2Isabelle
  imports Main "HOL-Library.AList"
begin

section \<open>Text primitives of the host language\<close>

text \<open>
  A text is a \<^typ>\<open>string\<close>; a \<^typ>\<open>char\<close> stands for a code unit below 256.
  \<open>String.prototype.trim\<close> removes white space and line terminators from both ends;
  below 256 these are the code units 9 to 13, 32 and 160.
\<close>

definition is_space :: "char \<Rightarrow> bool" where
  "is_space c = (c \<in> set [CHR 0x09, CHR 0x0A, CHR 0x0B, CHR 0x0C, CHR 0x0D, CHR 0x20, CHR 0xA0])"

definition trim :: "string \<Rightarrow> string" where
  "trim s = rev (dropWhile is_space (rev (dropWhile is_space s)))"

text \<open>
  \<open>s.split(c)\<close> for a separator of one character: the pieces between the separators,
  one more than there are separators, so never the empty list.
\<close>

fun js_split :: "char \<Rightarrow> string \<Rightarrow> string list" where
  "js_split c [] = [[]]"
| "js_split c (x # xs) =
     (if x = c then [] # js_split c xs
      else (case js_split c xs of
              [] \<Rightarrow> [[x]]
            | w # ws \<Rightarrow> (x # w) # ws))"

definition lower :: "char \<Rightarrow> char" where
  "lower c = (let n = (of_char c :: nat) in if 65 \<le> n \<and> n \<le> 90 then char_of (n + 32) else c)"

definition is_word_char :: "char \<Rightarrow> bool" where
  "is_word_char c =
     (let n = (of_char c :: nat)
      in (48 \<le> n \<and> n \<le> 57) \<or> (65 \<le> n \<and> n \<le> 90) \<or> n = 95 \<or> (97 \<le> n \<and> n \<le> 122))"

fun prefix_ci :: "string \<Rightarrow> string \<Rightarrow> bool" where
  "prefix_ci [] s = True"
| "prefix_ci (p # ps) [] = False"
| "prefix_ci (p # ps) (c # cs) = (lower p = lower c \<and> prefix_ci ps cs)"

section \<open>sanitizeInput\<close>

text \<open>
  \<^verbatim>\<open>input.replace(/<script\b[^<]*(?:(?!<\/script>)<[^<]*)*<\/script>/gi, '')\<close>

  A match starts at \<open><script\<close> (in any case) followed by a word boundary, and runs to the
  end of the first \<open></script>\<close> after it: the body of the pattern stops at every \<open><\<close> and
  may pass it only when no closing tag starts there. Without a closing tag there is no
  match at that position. The replacement is global: the scan goes on after each match.
\<close>

definition opens_script :: "string \<Rightarrow> bool" where
  "opens_script s =
     (prefix_ci ''<script'' s \<and>
      (case drop 7 s of [] \<Rightarrow> True | c # _ \<Rightarrow> \<not> is_word_char c))"

fun after_close :: "string \<Rightarrow> string option" where
  "after_close [] = None"
| "after_close (c # cs) =
     (if prefix_ci ''</script>'' (c # cs) then Some (drop 9 (c # cs)) else after_close cs)"

lemma after_close_shorter: "after_close s = Some r \<Longrightarrow> length r \<le> length s"
  by (induction s) (auto split: if_splits)

function sanitizeInput :: "string \<Rightarrow> string" where
  "sanitizeInput [] = []"
| "sanitizeInput (c # cs) =
     (if opens_script (c # cs) then
        (case after_close (drop 6 cs) of
           Some rest \<Rightarrow> sanitizeInput rest
         | None \<Rightarrow> c # sanitizeInput cs)
      else c # sanitizeInput cs)"
  by pat_completeness auto
termination
proof (relation "measure length")
  show "wf (measure length)" by simp
next
  fix c :: char and cs rest :: string
  assume "after_close (drop 6 cs) = Some rest"
  then have "length rest \<le> length (drop 6 cs)" by (rule after_close_shorter)
  then show "(rest, c # cs) \<in> measure length" by simp
qed simp_all

section \<open>JSON values\<close>

text \<open>
  A value as \<open>JSON.parse\<close> returns it. An object is the list of its own properties in
  the order of their creation, each key once. \<open>JNum\<close> is an integral number of
  magnitude below \<open>10^21\<close>, which prints as plain decimal digits; \<open>JNumText\<close> is any other
  number, held as the text \<open>Number.prototype.toString\<close> prints for it (a number of that
  kind is never zero).
\<close>

datatype json =
    JNull
  | JBool bool
  | JNum int
  | JNumText string
  | JStr string
  | JArr "json list"
  | JObj "(string \<times> json) list"

datatype js_error = TypeError

fun nth_opt :: "'a list \<Rightarrow> nat \<Rightarrow> 'a option" where
  "nth_opt [] i = None"
| "nth_opt (x # xs) 0 = Some x"
| "nth_opt (x # xs) (Suc i) = nth_opt xs i"

section \<open>parseData\<close>

definition MAX_ROWS_DISPLAY :: nat where
  "MAX_ROWS_DISPLAY = 1000"

definition delimiters :: "char list" where
  "delimiters = [CHR '','', CHR 0x09, CHR ''|'', CHR '';'']"

text \<open>
  The outcome of a call: \<open>return null\<close>, \<open>return { data, type }\<close>, or
  \<open>throw new Error(message)\<close>.
\<close>

datatype outcome = Null | Result "json list" string | Throw string

definition unrecognized :: string where
  "unrecognized = ''Unrecognized format. Please use JSON, CSV, TSV, or other delimited data.''"

definition unrecognized_html :: string where
  "unrecognized_html = ''Unrecognized format. Please use JSON, CSV, or other delimited data.''"

text \<open>\<^verbatim>\<open>Array.isArray(jsonData) ? jsonData : [jsonData]\<close>\<close>

fun arrayData :: "json \<Rightarrow> json list" where
  "arrayData (JArr xs) = xs"
| "arrayData v = [v]"

text \<open>
  The \<open>forEach\<close> over the delimiters, with its two variables \<open>bestDelimiter\<close> and
  \<open>maxCount\<close>. The pattern \<open>new RegExp(`\\${delimiter}`, 'g')\<close> is the escaped delimiter,
  so the number of matches is the number of occurrences of that character.
\<close>

definition sniff_step :: "string \<Rightarrow> char \<times> nat \<Rightarrow> char \<Rightarrow> char \<times> nat" where
  "sniff_step line0 st delimiter =
     (let count = count_list line0 delimiter
      in if count > snd st then (delimiter, count) else st)"

definition sniff :: "string \<Rightarrow> char \<times> nat" where
  "sniff line0 = foldl (sniff_step line0) (CHR '','', 0) delimiters"

text \<open>
  \<^verbatim>\<open>.replace(/^["']|["']$/g, '')\<close>: a match is one quote character at the start of the
  text or one at its end; every match is removed.
\<close>

definition is_quote :: "char \<Rightarrow> bool" where
  "is_quote c = (c = CHR 0x22 \<or> c = CHR 0x27)"

definition strip_quotes :: "string \<Rightarrow> string" where
  "strip_quotes s =
     map snd (filter (\<lambda>(i, c). \<not> (is_quote c \<and> (i = 0 \<or> Suc i = length s))) (enumerate 0 s))"

definition clean :: "string \<Rightarrow> string" where
  "clean f = strip_quotes (trim f)"

text \<open>\<^verbatim>\<open>values[index] || ''\<close>\<close>

definition or_empty :: "string option \<Rightarrow> string" where
  "or_empty v = (case v of None \<Rightarrow> [] | Some s \<Rightarrow> if s = [] then [] else s)"

text \<open>
  \<^verbatim>\<open>obj[header] = ...\<close> on an object made by \<open>{}\<close>, for a value that is a text. An
  assignment to a key the object has keeps the key's place and replaces its value; one
  to a new key adds it at the end. An assignment to \<open>__proto__\<close> reaches the setter that
  the object inherits from \<open>Object.prototype\<close>, which ignores a value that is not an
  object: the object gets no property.
\<close>

definition assign :: "(string \<times> json) list \<Rightarrow> string \<Rightarrow> json \<Rightarrow> (string \<times> json) list" where
  "assign obj key v = (if key = ''__proto__'' then obj else AList.update key v obj)"

text \<open>
  \<^verbatim>\<open>const obj = {}; headers.forEach((header, index) => { obj[header] = values[index] || ''; });\<close>
\<close>

definition row_object :: "string list \<Rightarrow> string list \<Rightarrow> (string \<times> json) list" where
  "row_object headers vals =
     foldl (\<lambda>obj (header, index). assign obj header (JStr (or_empty (nth_opt vals index))))
       [] (zip headers [0..<length headers])"

definition typeMap :: "char \<Rightarrow> string" where
  "typeMap d =
     (if d = CHR '','' then ''CSV''
      else if d = CHR 0x09 then ''TSV''
      else if d = CHR ''|'' then ''Pipe-separated''
      else if d = CHR '';'' then ''Semicolon-separated''
      else ''undefined'')"

definition non_blank_lines :: "string \<Rightarrow> string list" where
  "non_blank_lines s = filter (\<lambda>line. trim line \<noteq> []) (js_split (CHR 0x0A) s)"

definition fields :: "char \<Rightarrow> string \<Rightarrow> string list" where
  "fields d line = map clean (js_split d line)"

text \<open>
  \<open>parseData\<close> of \<open>production_data_viewer.tsx\<close>. \<open>JSON.parse\<close> is the platform's; it is the
  parameter \<open>parse_json\<close>, with \<open>None\<close> for a thrown \<open>SyntaxError\<close>.
\<close>

definition parseData :: "(string \<Rightarrow> json option) \<Rightarrow> string \<Rightarrow> outcome" where
  "parseData parse_json data =
     (if trim data = [] then Null
      else
        let sanitizedData = sanitizeInput (trim data) in
        case parse_json sanitizedData of
          Some jsonData \<Rightarrow> Result (take MAX_ROWS_DISPLAY (arrayData jsonData)) ''JSON''
        | None \<Rightarrow>
            let lines = non_blank_lines sanitizedData in
            if length lines > 1 then
              let (bestDelimiter, maxCount) = sniff (hd lines) in
              if maxCount > 0 then
                let headers = filter (\<lambda>h. h \<noteq> []) (fields bestDelimiter (hd lines)) in
                if length headers > 1 then
                  let rows = map (\<lambda>line. JObj (row_object headers (fields bestDelimiter line)))
                               (take MAX_ROWS_DISPLAY (drop 1 lines)) in
                  if length rows > 0 then Result rows (typeMap bestDelimiter)
                  else Throw unrecognized
                else Throw unrecognized
              else Throw unrecognized
            else Throw unrecognized)"

text \<open>\<open>parseData\<close> of \<open>data-table-viewer.html\<close>.\<close>

definition parseData_html :: "(string \<Rightarrow> json option) \<Rightarrow> string \<Rightarrow> outcome" where
  "parseData_html parse_json data =
     (if trim data = [] then Null
      else
        case parse_json data of
          Some jsonData \<Rightarrow> Result (arrayData jsonData) ''JSON''
        | None \<Rightarrow>
            let lines = non_blank_lines (trim data) in
            if length lines > 1 then
              let (bestDelimiter, maxCount) = sniff (hd lines) in
              if maxCount > 0 then
                let headers = fields bestDelimiter (hd lines);
                    rows = map (\<lambda>line. JObj (row_object headers (fields bestDelimiter line)))
                             (drop 1 lines) in
                if length rows > 0 \<and> length headers > 1 then Result rows (typeMap bestDelimiter)
                else Throw unrecognized_html
              else Throw unrecognized_html
            else Throw unrecognized_html)"

section \<open>Columns and cells\<close>

text \<open>
  A property key is an array index when it is the decimal text, without leading zeros,
  of a number below \<open>2^32 - 1\<close>. \<open>Object.keys\<close> lists the index keys of an object first,
  in ascending order, and then the other keys in the order of their creation.
\<close>

definition is_digit :: "char \<Rightarrow> bool" where
  "is_digit c = (let n = (of_char c :: nat) in 48 \<le> n \<and> n \<le> 57)"

definition digit_value :: "char \<Rightarrow> nat" where
  "digit_value c = of_char c - 48"

definition nat_of_digits :: "string \<Rightarrow> nat" where
  "nat_of_digits s = foldl (\<lambda>n c. 10 * n + digit_value c) 0 s"

fun digits_less :: "string \<Rightarrow> string \<Rightarrow> bool" where
  "digits_less (a # as) (b # bs) =
     ((of_char a :: nat) < of_char b \<or> (a = b \<and> digits_less as bs))"
| "digits_less as bs = False"

definition array_index :: "string \<Rightarrow> nat option" where
  "array_index k =
     (if k \<noteq> [] \<and> list_all is_digit k \<and> (k = ''0'' \<or> hd k \<noteq> CHR ''0'')
         \<and> (length k < 10 \<or> (length k = 10 \<and> digits_less k ''4294967295''))
      then Some (nat_of_digits k) else None)"

function string_of_nat :: "nat \<Rightarrow> string" where
  "string_of_nat n =
     (if n < 10 then [char_of (48 + n)] else string_of_nat (n div 10) @ [char_of (48 + n mod 10)])"
  by pat_completeness auto
termination
  by (relation "measure id") auto

definition string_of_int :: "int \<Rightarrow> string" where
  "string_of_int i = (if i < 0 then CHR ''-'' # string_of_nat (nat (- i)) else string_of_nat (nat i))"

definition own_keys :: "(string \<times> json) list \<Rightarrow> string list" where
  "own_keys kvs =
     (let ks = map fst kvs
      in sort_key nat_of_digits (filter (\<lambda>k. array_index k \<noteq> None) ks)
         @ filter (\<lambda>k. array_index k = None) ks)"

text \<open>
  \<open>Object.keys(item)\<close>: a \<open>TypeError\<close> for \<open>null\<close>, no key for a number or a boolean, the
  positions for a string or an array.
\<close>

fun Object_keys :: "json \<Rightarrow> js_error + string list" where
  "Object_keys JNull = Inl TypeError"
| "Object_keys (JBool b) = Inr []"
| "Object_keys (JNum n) = Inr []"
| "Object_keys (JNumText t) = Inr []"
| "Object_keys (JStr s) = Inr (map string_of_nat [0..<length s])"
| "Object_keys (JArr xs) = Inr (map string_of_nat [0..<length xs])"
| "Object_keys (JObj kvs) = Inr (own_keys kvs)"

text \<open>\<open>allKeys.add(key)\<close> on a \<open>Set\<close>, which keeps the order of first insertion.\<close>

definition set_add :: "string list \<Rightarrow> string \<Rightarrow> string list" where
  "set_add allKeys key = (if key \<in> set allKeys then allKeys else allKeys @ [key])"

fun add_keys :: "string list \<Rightarrow> json list \<Rightarrow> js_error + string list" where
  "add_keys allKeys [] = Inr allKeys"
| "add_keys allKeys (item # items) =
     (case Object_keys item of
        Inl e \<Rightarrow> Inl e
      | Inr ks \<Rightarrow> add_keys (foldl set_add allKeys ks) items)"

text \<open>The \<open>columns\<close> memo of both components.\<close>

definition columns :: "json list \<Rightarrow> js_error + string list" where
  "columns parsedData = (if parsedData = [] then Inr [] else add_keys [] parsedData)"

text \<open>
  \<open>row[column]\<close> looks for an own property of the row first and then along the chain of
  its prototypes. \<open>own_prop\<close> is the first step: the properties of an object, the
  positions and the \<open>length\<close> of an array or of a string.
\<close>

fun own_prop :: "json \<Rightarrow> string \<Rightarrow> json option" where
  "own_prop (JStr s) c =
     (if c = ''length'' then Some (JNum (int (length s)))
      else (case array_index c of
              None \<Rightarrow> None
            | Some i \<Rightarrow> map_option (\<lambda>ch. JStr [ch]) (nth_opt s i)))"
| "own_prop (JArr xs) c =
     (if c = ''length'' then Some (JNum (int (length xs)))
      else (case array_index c of
              None \<Rightarrow> None
            | Some i \<Rightarrow> nth_opt xs i))"
| "own_prop (JObj kvs) c = map_of kvs c"
| "own_prop v c = None"

text \<open>
  What a property read returns: a value of the data, or a member of the platform (a
  built-in function, or a prototype object), which is held as the text its \<open>toString()\<close>
  gives. The members a row inherits are the platform's; they are the parameter
  \<open>inherited\<close>, which gives for a row and a name the member of that name on the chain of
  prototypes of the row, if there is one. A read on \<open>null\<close> throws.
\<close>

datatype js_value = Data json | Builtin string

definition get_prop ::
    "(json \<Rightarrow> string \<Rightarrow> string option) \<Rightarrow> json \<Rightarrow> string \<Rightarrow> js_error + js_value option" where
  "get_prop inherited row c =
     (if row = JNull then Inl TypeError
      else
        (case own_prop row c of
           Some v \<Rightarrow> Inr (Some (Data v))
         | None \<Rightarrow> Inr (map_option Builtin (inherited row c))))"

fun truthy :: "json \<Rightarrow> bool" where
  "truthy JNull = False"
| "truthy (JBool b) = b"
| "truthy (JNum n) = (n \<noteq> 0)"
| "truthy (JNumText t) = True"
| "truthy (JStr s) = (s \<noteq> [])"
| "truthy (JArr xs) = True"
| "truthy (JObj kvs) = True"

fun join_comma :: "string list \<Rightarrow> string" where
  "join_comma [] = []"
| "join_comma [s] = s"
| "join_comma (s # t # ts) = s @ CHR '','' # join_comma (t # ts)"

fun collect :: "('e + 'a) list \<Rightarrow> 'e + 'a list" where
  "collect [] = Inr []"
| "collect (Inl e # rs) = Inl e"
| "collect (Inr x # rs) = (case collect rs of Inl e \<Rightarrow> Inl e | Inr xs \<Rightarrow> Inr (x # xs))"

text \<open>
  The text of a value of the data: \<open>toString()\<close> called on it, and the conversion to a
  text that \<open>join\<close> applies to the elements of an array. An array prints its elements
  joined by commas, with nothing for a \<open>null\<close> element; that is the only place where
  \<open>null\<close> is printed. An object prints as \<open>[object Object]\<close> through the \<open>toString\<close> it
  inherits; when it has an own property \<open>toString\<close>, that property is not a function
  (the data comes from \<open>JSON.parse\<close>) and the conversion throws a \<open>TypeError\<close>.
\<close>

fun to_text :: "json \<Rightarrow> js_error + string" where
  "to_text JNull = Inr []"
| "to_text (JBool b) = Inr (if b then ''true'' else ''false'')"
| "to_text (JNum n) = Inr (string_of_int n)"
| "to_text (JNumText t) = Inr t"
| "to_text (JStr s) = Inr s"
| "to_text (JArr xs) =
     (case collect (map to_text xs) of
        Inl e \<Rightarrow> Inl e
      | Inr ts \<Rightarrow> Inr (join_comma ts))"
| "to_text (JObj kvs) =
     (if ''toString'' \<in> set (map fst kvs) then Inl TypeError else Inr ''[object Object]'')"

text \<open>\<^verbatim>\<open>(row[column] || '').toString()\<close>. A member of the platform is never falsy.\<close>

definition cell :: "(json \<Rightarrow> string \<Rightarrow> string option) \<Rightarrow> json \<Rightarrow> string \<Rightarrow> js_error + string" where
  "cell inherited row column =
     (case get_prop inherited row column of
        Inl e \<Rightarrow> Inl e
      | Inr None \<Rightarrow> Inr []
      | Inr (Some (Builtin t)) \<Rightarrow> Inr t
      | Inr (Some (Data v)) \<Rightarrow> (if truthy v then to_text v else Inr []))"

text \<open>
  A row as the table and the export show it: \<open>columns.map(column => ...)\<close>, each cell
  under its column.
\<close>

definition record_of ::
    "(json \<Rightarrow> string \<Rightarrow> string option) \<Rightarrow> string list \<Rightarrow> json \<Rightarrow> js_error + (string \<times> string) list" where
  "record_of inherited cols row =
     (case collect (map (cell inherited row) cols) of
        Inl e \<Rightarrow> Inl e
      | Inr texts \<Rightarrow> Inr (zip cols texts))"

definition records ::
    "(json \<Rightarrow> string \<Rightarrow> string option) \<Rightarrow> string list \<Rightarrow> json list
       \<Rightarrow> js_error + (string \<times> string) list list" where
  "records inherited cols parsedData = collect (map (record_of inherited cols) parsedData)"

text \<open>What the table shows for the parsed data: the columns, and one record for each row.\<close>

definition table ::
    "(json \<Rightarrow> string \<Rightarrow> string option) \<Rightarrow> json list
       \<Rightarrow> js_error + (string list \<times> (string \<times> string) list list)" where
  "table inherited parsedData =
     (case columns parsedData of
        Inl e \<Rightarrow> Inl e
      | Inr cols \<Rightarrow>
          (case records inherited cols parsedData of
             Inl e \<Rightarrow> Inl e
           | Inr recs \<Rightarrow> Inr (cols, recs)))"

text \<open>
  The members that a row which is an object inherits: those of \<open>Object.prototype\<close>. A
  function prints as V8 prints a built-in function (other engines differ in the white
  space); \<open>__proto__\<close> gives the prototype itself, an object. Arrays, strings, numbers and
  booleans inherit from prototypes of their own, whose members depend on the edition of
  the language; \<open>object_members\<close> does not list them and is used below on rows that are
  objects.
\<close>

definition native_function :: "string \<Rightarrow> string" where
  "native_function name = ''function '' @ name @ ''() { [native code] }''"

definition Object_prototype :: "(string \<times> string) list" where
  "Object_prototype =
     [(''constructor'', native_function ''Object''),
      (''__defineGetter__'', native_function ''__defineGetter__''),
      (''__defineSetter__'', native_function ''__defineSetter__''),
      (''hasOwnProperty'', native_function ''hasOwnProperty''),
      (''__lookupGetter__'', native_function ''__lookupGetter__''),
      (''__lookupSetter__'', native_function ''__lookupSetter__''),
      (''isPrototypeOf'', native_function ''isPrototypeOf''),
      (''propertyIsEnumerable'', native_function ''propertyIsEnumerable''),
      (''toString'', native_function ''toString''),
      (''valueOf'', native_function ''valueOf''),
      (''__proto__'', ''[object Object]''),
      (''toLocaleString'', native_function ''toLocaleString'')]"

definition object_members :: "json \<Rightarrow> string \<Rightarrow> string option" where
  "object_members row c = (case row of JObj kvs \<Rightarrow> map_of Object_prototype c | _ \<Rightarrow> None)"

section \<open>A reader for a fragment of JSON\<close>

text \<open>
  \<open>JSON_parse\<close> reads the JSON grammar with two limits: a number is an integer literal of
  at most 15 digits, and a \<open>\u\<close> escape names a code unit below 256. On any other text
  the result is \<open>None\<close>. It stands for the platform's \<open>JSON.parse\<close> on the concrete
  inputs below, which lie in the fragment or are not JSON at all. A later duplicate of
  a key replaces the value and keeps the key's place; the key \<open>__proto__\<close> is stored like
  any other. The recursion is bounded by fuel:
  twice the length of the text and two more.
\<close>

definition is_json_ws :: "char \<Rightarrow> bool" where
  "is_json_ws c = (c \<in> set [CHR 0x20, CHR 0x09, CHR 0x0A, CHR 0x0D])"

definition skip_ws :: "string \<Rightarrow> string" where
  "skip_ws s = dropWhile is_json_ws s"

definition hex_value :: "char \<Rightarrow> nat option" where
  "hex_value c =
     (let n = (of_char c :: nat)
      in if 48 \<le> n \<and> n \<le> 57 then Some (n - 48)
         else if 65 \<le> n \<and> n \<le> 70 then Some (n - 55)
         else if 97 \<le> n \<and> n \<le> 102 then Some (n - 87)
         else None)"

definition simple_escape :: "char \<Rightarrow> char option" where
  "simple_escape e =
     map_of [(CHR 0x22, CHR 0x22), (CHR 0x5C, CHR 0x5C), (CHR ''/'', CHR ''/''),
             (CHR ''b'', CHR 0x08), (CHR ''f'', CHR 0x0C), (CHR ''n'', CHR 0x0A),
             (CHR ''r'', CHR 0x0D), (CHR ''t'', CHR 0x09)] e"

definition cons_fst :: "char \<Rightarrow> (string \<times> string) option \<Rightarrow> (string \<times> string) option" where
  "cons_fst c r = map_option (\<lambda>(t, rest). (c # t, rest)) r"

text \<open>The characters of a string literal after its opening quote, and the text after it.\<close>

fun read_chars :: "string \<Rightarrow> (string \<times> string) option" where
  "read_chars [] = None"
| "read_chars (c # cs) =
     (if c = CHR 0x22 then Some ([], cs)
      else if c = CHR 0x5C then
        (case cs of
           [] \<Rightarrow> None
         | e # cs' \<Rightarrow>
             if e = CHR ''u'' then
               (case cs' of
                  h1 # h2 # h3 # h4 # cs'' \<Rightarrow>
                    (case (hex_value h1, hex_value h2, hex_value h3, hex_value h4) of
                       (Some a, Some b, Some x, Some y) \<Rightarrow>
                         if a = 0 \<and> b = 0 then cons_fst (char_of (16 * x + y)) (read_chars cs'')
                         else None
                     | _ \<Rightarrow> None)
                | _ \<Rightarrow> None)
             else
               (case simple_escape e of
                  None \<Rightarrow> None
                | Some ch \<Rightarrow> cons_fst ch (read_chars cs')))
      else if (of_char c :: nat) < 32 then None
      else cons_fst c (read_chars cs))"

text \<open>An integer literal: an optional minus sign, then \<open>0\<close> or digits that do not start with \<open>0\<close>.\<close>

definition read_number :: "string \<Rightarrow> (json \<times> string) option" where
  "read_number s =
     (let neg = (s \<noteq> [] \<and> hd s = CHR ''-'');
          body = (if neg then tl s else s);
          ds = takeWhile is_digit body;
          rest = dropWhile is_digit body;
          ds' = (if ds \<noteq> [] \<and> hd ds = CHR ''0'' then ''0'' else ds);
          rest' = (if ds \<noteq> [] \<and> hd ds = CHR ''0'' then tl ds @ rest else rest)
      in if ds = [] \<or> length ds' > 15 then None
         else if rest' \<noteq> [] \<and> hd rest' \<in> set ''.eE'' then None
         else Some (JNum ((if neg then - 1 else 1) * int (nat_of_digits ds')), rest'))"

definition read_scalar :: "string \<Rightarrow> (json \<times> string) option" where
  "read_scalar s =
     (if s \<noteq> [] \<and> hd s = CHR 0x22 then map_option (\<lambda>(t, rest). (JStr t, rest)) (read_chars (tl s))
      else if take 4 s = ''true'' then Some (JBool True, drop 4 s)
      else if take 5 s = ''false'' then Some (JBool False, drop 5 s)
      else if take 4 s = ''null'' then Some (JNull, drop 4 s)
      else read_number s)"

text \<open>
  After an element or a member: a comma and more to read, the closing bracket, or an error.
\<close>

datatype 'a step = More 'a string | Done 'a string | Bad

definition after_item :: "char \<Rightarrow> 'a \<Rightarrow> string \<Rightarrow> 'a step" where
  "after_item closing acc rest =
     (case skip_ws rest of
        [] \<Rightarrow> Bad
      | d # ds \<Rightarrow>
          if d = CHR '','' then More acc (skip_ws ds)
          else if d = closing then Done acc ds
          else Bad)"

definition read_key :: "string \<Rightarrow> (string \<times> string) option" where
  "read_key s =
     (case s of
        [] \<Rightarrow> None
      | q # cs \<Rightarrow>
          if q \<noteq> CHR 0x22 then None
          else
            (case read_chars cs of
               None \<Rightarrow> None
             | Some (k, rest) \<Rightarrow>
                 (case skip_ws rest of
                    [] \<Rightarrow> None
                  | colon # rest' \<Rightarrow> if colon \<noteq> CHR '':'' then None else Some (k, skip_ws rest'))))"

definition empty_container :: "char \<Rightarrow> char \<Rightarrow> string \<Rightarrow> bool" where
  "empty_container opening closing s = (s \<noteq> [] \<and> hd s = opening \<and> take 1 (skip_ws (tl s)) = [closing])"

fun read_value :: "nat \<Rightarrow> string \<Rightarrow> (json \<times> string) option"
  and read_elements :: "nat \<Rightarrow> json list \<Rightarrow> string \<Rightarrow> (json \<times> string) option"
  and read_members :: "nat \<Rightarrow> (string \<times> json) list \<Rightarrow> string \<Rightarrow> (json \<times> string) option"
where
  "read_value 0 s = None"
| "read_value (Suc fuel) s =
     (if empty_container (CHR ''{'') (CHR ''}'') s then Some (JObj [], drop 1 (skip_ws (tl s)))
      else if empty_container (CHR ''['') (CHR '']'') s then Some (JArr [], drop 1 (skip_ws (tl s)))
      else if s \<noteq> [] \<and> hd s = CHR ''{'' then read_members fuel [] (skip_ws (tl s))
      else if s \<noteq> [] \<and> hd s = CHR ''['' then read_elements fuel [] (skip_ws (tl s))
      else read_scalar s)"
| "read_elements 0 acc s = None"
| "read_elements (Suc fuel) acc s =
     (case read_value fuel s of
        None \<Rightarrow> None
      | Some (v, rest) \<Rightarrow>
          (case after_item (CHR '']'') (acc @ [v]) rest of
             Bad \<Rightarrow> None
           | Done xs rest' \<Rightarrow> Some (JArr xs, rest')
           | More xs rest' \<Rightarrow> read_elements fuel xs rest'))"
| "read_members 0 acc s = None"
| "read_members (Suc fuel) acc s =
     (case read_key s of
        None \<Rightarrow> None
      | Some (k, rest) \<Rightarrow>
          (case read_value fuel rest of
             None \<Rightarrow> None
           | Some (v, rest') \<Rightarrow>
               (case after_item (CHR ''}'') (AList.update k v acc) rest' of
                  Bad \<Rightarrow> None
                | Done kvs rest'' \<Rightarrow> Some (JObj kvs, rest'')
                | More kvs rest'' \<Rightarrow> read_members fuel kvs rest'')))"

definition JSON_parse :: "string \<Rightarrow> json option" where
  "JSON_parse s =
     (case read_value (2 * length s + 2) (skip_ws s) of
        None \<Rightarrow> None
      | Some (v, rest) \<Rightarrow> if skip_ws rest = [] then Some v else None)"

section \<open>Notions used in the statements\<close>

text \<open>
  The non-blank lines \<open>parseData\<close> works on (\<open>lines_of_html\<close> for the one of
  \<open>data-table-viewer.html\<close>), and the header names it takes from the first of them: the
  cleaned fields of that line under the delimiter that \<open>sniff\<close> picks, without the empty
  ones.
\<close>

definition lines_of :: "string \<Rightarrow> string list" where
  "lines_of data = non_blank_lines (sanitizeInput (trim data))"

definition lines_of_html :: "string \<Rightarrow> string list" where
  "lines_of_html data = non_blank_lines (trim data)"

definition header_names :: "string \<Rightarrow> string list" where
  "header_names line0 = filter (\<lambda>h. h \<noteq> []) (fields (fst (sniff line0)) line0)"

text \<open>Two outcomes agree when both are null, both fail, or both return the same data and label.\<close>

fun agree :: "outcome \<Rightarrow> outcome \<Rightarrow> bool" where
  "agree Null Null = True"
| "agree (Throw m) (Throw m') = True"
| "agree (Result rows ty) (Result rows' ty') = (rows = rows' \<and> ty = ty')"
| "agree a b = False"







section \<open>Facts about the operations\<close>

subsection \<open>The choice of the delimiter\<close>

lemma sniff_unfold:
  "sniff l = sniff_step l (sniff_step l (sniff_step l (sniff_step l (CHR '','', 0) (CHR '','')) (CHR 0x09)) (CHR ''|'')) (CHR '';'')"
  by (simp add: sniff_def delimiters_def)

lemma sniff_count: "snd (sniff l) = count_list l (fst (sniff l))"
  by (simp add: sniff_unfold sniff_step_def Let_def)

lemma sniff_mem: "fst (sniff l) \<in> set delimiters"
  by (simp add: sniff_unfold sniff_step_def Let_def delimiters_def)




subsection \<open>Lines and fields\<close>

lemma nth_opt_eq: "nth_opt xs i = (if i < length xs then Some (xs ! i) else None)"
  by (induction xs i rule: nth_opt.induct) auto

lemma length_js_split: "length (js_split c s) = Suc (count_list s c)"
  by (induction s) (auto split: list.splits)

lemma length_fields: "length (fields d line) = Suc (count_list line d)"
  by (simp add: fields_def length_js_split)

subsection \<open>The two parse functions, branch by branch\<close>

lemma parseData_delimited:
  assumes "trim data \<noteq> []" and "parse_json (sanitizeInput (trim data)) = None"
  shows "parseData parse_json data =
    (if 1 < length (lines_of data) \<and> 0 < snd (sniff (hd (lines_of data)))
        \<and> 1 < length (header_names (hd (lines_of data)))
     then Result (map (\<lambda>line. JObj (row_object (header_names (hd (lines_of data)))
                    (fields (fst (sniff (hd (lines_of data)))) line)))
                  (take MAX_ROWS_DISPLAY (drop 1 (lines_of data))))
            (typeMap (fst (sniff (hd (lines_of data)))))
     else Throw unrecognized)"
  using assms
  by (auto simp add: parseData_def Let_def lines_of_def header_names_def case_prod_beta MAX_ROWS_DISPLAY_def)

lemma parseData_json:
  assumes "trim data \<noteq> []" and "parse_json (sanitizeInput (trim data)) = Some j"
  shows "parseData parse_json data = Result (take MAX_ROWS_DISPLAY (arrayData j)) ''JSON''"
  using assms by (simp add: parseData_def Let_def)

lemma parseData_html_delimited:
  assumes "trim data \<noteq> []" and "parse_json data = None"
  shows "parseData_html parse_json data =
    (if 1 < length (non_blank_lines (trim data)) \<and> 0 < snd (sniff (hd (non_blank_lines (trim data))))
     then Result (map (\<lambda>line. JObj (row_object (fields (fst (sniff (hd (non_blank_lines (trim data))))) (hd (non_blank_lines (trim data))))
                    (fields (fst (sniff (hd (non_blank_lines (trim data))))) line)))
                  (drop 1 (non_blank_lines (trim data))))
            (typeMap (fst (sniff (hd (non_blank_lines (trim data))))))
     else Throw unrecognized_html)"
  using assms
  by (auto simp add: parseData_html_def Let_def case_prod_beta fields_def length_js_split sniff_count)

lemma parseData_html_json:
  assumes "trim data \<noteq> []" and "parse_json data = Some j"
  shows "parseData_html parse_json data = Result (arrayData j) ''JSON''"
  using assms by (simp add: parseData_html_def)

subsection \<open>Rows\<close>

lemma row_object_snoc:
  "row_object (hs @ [h]) vs =
     assign (row_object hs vs) h (JStr (or_empty (nth_opt vs (length hs))))"
  by (simp add: row_object_def)

lemma row_object_Nil: "row_object [] vs = []"
  by (simp add: row_object_def)

lemma row_object_keys: "fst ` set (row_object hs vs) = set hs - {''__proto__''}"
  by (induction hs rule: rev_induct)
     (auto simp add: row_object_snoc row_object_Nil assign_def dom_update)

lemma row_object_keys_plain:
  "''__proto__'' \<notin> set hs \<Longrightarrow> fst ` set (row_object hs vs) = set hs"
  by (simp add: row_object_keys)

lemma row_object_cong:
  "(\<And>i. i < length hs \<Longrightarrow> or_empty (nth_opt vs i) = or_empty (nth_opt ws i)) \<Longrightarrow>
   row_object hs vs = row_object hs ws"
  by (induction hs rule: rev_induct) (auto simp add: row_object_snoc row_object_Nil)

lemma row_object_take: "row_object hs vs = row_object hs (take (length hs) vs)"
  by (rule row_object_cong) (auto simp add: nth_opt_eq)

lemma row_object_missing:
  "j < length hs \<Longrightarrow> length vs \<le> j \<Longrightarrow> hs ! j \<noteq> ''__proto__'' \<Longrightarrow>
   map_of (row_object hs vs) (hs ! j) = Some (JStr [])"
proof (induction hs rule: rev_induct)
  case Nil
  then show ?case by simp
next
  case (snoc h hs)
  show ?case
  proof (cases "j < length hs")
    case True
    with snoc have "map_of (row_object hs vs) (hs ! j) = Some (JStr [])"
      by (simp add: nth_append)
    moreover from True snoc.prems have "nth_opt vs (length hs) = None" by (simp add: nth_opt_eq)
    ultimately show ?thesis using True
      by (simp add: row_object_snoc assign_def update_conv' nth_append or_empty_def)
  next
    case False
    with snoc.prems have "j = length hs" by simp
    with snoc.prems show ?thesis
      by (simp add: row_object_snoc assign_def update_conv' nth_opt_eq or_empty_def)
  qed
qed

lemma row_object_facts:
  assumes "''__proto__'' \<notin> set hs"
  shows "fst ` set (row_object hs vs) = set hs \<and>
         (\<forall>j<length hs. length vs \<le> j \<longrightarrow> map_of (row_object hs vs) (hs ! j) = Some (JStr [])) \<and>
         row_object hs vs = row_object hs (take (length hs) vs)"
proof (intro conjI allI impI)
  from assms show "fst ` set (row_object hs vs) = set hs" by (rule row_object_keys_plain)
  show "map_of (row_object hs vs) (hs ! j) = Some (JStr [])" if "j < length hs" "length vs \<le> j" for j
  proof -
    from assms that(1) have "hs ! j \<noteq> ''__proto__''" by (metis nth_mem)
    with that show ?thesis by (rule row_object_missing)
  qed
  show "row_object hs vs = row_object hs (take (length hs) vs)" by (rule row_object_take)
qed

subsection \<open>Quote stripping\<close>






subsection \<open>The two long inputs\<close>
























section \<open>The claims\<close>

text \<open>
  C1. Every record of a parse result has exactly the keys listed in the columns, and a
  cell that the original element lacks is the empty string under its column key, never a
  missing key. The code departs from this where a column bears the name of a member that
  the row inherits. For \<open>[{"a":1},{"constructor":2}]\<close> the columns are \<open>a\<close> and
  \<open>constructor\<close>; the first element has no property \<open>constructor\<close>, and yet its cell under
  that column is the text of the built-in function \<open>Object\<close>, not the empty string. A
  \<open>null\<close> element is a second case: \<open>[null]\<close> is parsed as one row, and the columns of that
  row cannot be computed, \<open>Object.keys\<close> throws.
\<close>

theorem C1_inherited_member_cell:
  \<open>parseData JSON_parse ''[{"a":1},{"constructor":2}]'' =
     Result [JObj [(''a'', JNum 1)], JObj [(''constructor'', JNum 2)]] ''JSON'' \<and>
   own_prop (JObj [(''a'', JNum 1)]) ''constructor'' = None \<and>
   table object_members [JObj [(''a'', JNum 1)], JObj [(''constructor'', JNum 2)]] =
     Inr ([''a'', ''constructor''],
          [[(''a'', ''1''), (''constructor'', ''function Object() { [native code] }'')],
           [(''a'', ''''), (''constructor'', ''2'')]]) \<and>
   parseData JSON_parse ''[null]'' = Result [JNull] ''JSON'' \<and>
   table object_members [JNull] = Inl TypeError\<close>
proof (intro conjI)
  show \<open>parseData JSON_parse ''[{"a":1},{"constructor":2}]'' =
     Result [JObj [(''a'', JNum 1)], JObj [(''constructor'', JNum 2)]] ''JSON''\<close>
    by code_simp
  show "own_prop (JObj [(''a'', JNum 1)]) ''constructor'' = None" by code_simp
  show "table object_members [JObj [(''a'', JNum 1)], JObj [(''constructor'', JNum 2)]] =
     Inr ([''a'', ''constructor''],
          [[(''a'', ''1''), (''constructor'', ''function Object() { [native code] }'')],
           [(''a'', ''''), (''constructor'', ''2'')]])"
    by code_simp
  show "parseData JSON_parse ''[null]'' = Result [JNull] ''JSON''" by code_simp
  show "table object_members [JNull] = Inl TypeError" by code_simp
qed

text \<open>
  C2. Parsing the text \<open>[{"a":1},{"b":2}]\<close> yields the label JSON, the columns \<open>a\<close>, \<open>b\<close> in
  that order, and the records \<open>{a:"1", b:""}\<close> and \<open>{a:"", b:"2"}\<close>: one record for each
  element of the array, the cells as texts, the omitted keys as the empty string.
\<close>

theorem C2_json_example:
  \<open>parseData JSON_parse ''[{"a":1},{"b":2}]'' =
     Result [JObj [(''a'', JNum 1)], JObj [(''b'', JNum 2)]] ''JSON'' \<and>
   table object_members [JObj [(''a'', JNum 1)], JObj [(''b'', JNum 2)]] =
     Inr ([''a'', ''b''], [[(''a'', ''1''), (''b'', '''')], [(''a'', ''''), (''b'', ''2'')]])\<close>
proof
  show \<open>parseData JSON_parse ''[{"a":1},{"b":2}]'' =
     Result [JObj [(''a'', JNum 1)], JObj [(''b'', JNum 2)]] ''JSON''\<close>
    by code_simp
  show \<open>table object_members [JObj [(''a'', JNum 1)], JObj [(''b'', JNum 2)]] =
     Inr ([''a'', ''b''], [[(''a'', ''1''), (''b'', '''')], [(''a'', ''''), (''b'', ''2'')]])\<close>
    by code_simp
qed











text \<open>
  C7. An input on which a format is detected but which yields no record must fail rather
  than succeed with an empty list of records. The code departs from this on the JSON
  path: for the valid JSON text \<open>[]\<close> both \<open>parseData\<close> functions succeed, with the label
  JSON and no rows. The delimited branch of both functions returns a result only when
  there is at least one row; the JSON branch has no such test.
\<close>

theorem C7_empty_array_succeeds:
  "parseData JSON_parse ''[]'' = Result [] ''JSON'' \<and>
   parseData_html JSON_parse ''[]'' = Result [] ''JSON''"
proof
  show "parseData JSON_parse ''[]'' = Result [] ''JSON''" by code_simp
  show "parseData_html JSON_parse ''[]'' = Result [] ''JSON''" by code_simp
qed

text \<open>
  C8. A data line with fewer fields than there are headers gets the empty string in the
  missing trailing columns, and the fields beyond the headers are dropped. The code
  departs from this for a header named \<open>__proto__\<close>. For the lines \<open>a,__proto__\<close> and \<open>1\<close>
  the header names are \<open>a\<close> and \<open>__proto__\<close> and the data line has one field, so the second
  column is missing; the row is \<open>{a: "1"}\<close>, with no second column at all, and the table
  has the one column \<open>a\<close>. (For header names other than \<open>__proto__\<close> the claim holds:
  \<open>row_object_facts\<close>.)
\<close>

theorem C8_proto_header_row:
  "header_names ''a,__proto__'' = [''a'', ''__proto__''] \<and>
   fields (CHR '','') ''1'' = [''1''] \<and>
   parseData JSON_parse ''a,__proto__\<newline>1'' = Result [JObj [(''a'', JStr ''1'')]] ''CSV'' \<and>
   parseData_html JSON_parse ''a,__proto__\<newline>1'' = Result [JObj [(''a'', JStr ''1'')]] ''CSV'' \<and>
   table object_members [JObj [(''a'', JStr ''1'')]] = Inr ([''a''], [[(''a'', ''1'')]])"
proof (intro conjI)
  show "header_names ''a,__proto__'' = [''a'', ''__proto__'']" by code_simp
  show "fields (CHR '','') ''1'' = [''1'']" by code_simp
  show "parseData JSON_parse ''a,__proto__\<newline>1'' = Result [JObj [(''a'', JStr ''1'')]] ''CSV''"
    by code_simp
  show "parseData_html JSON_parse ''a,__proto__\<newline>1'' = Result [JObj [(''a'', JStr ''1'')]] ''CSV''"
    by code_simp
  show "table object_members [JObj [(''a'', JStr ''1'')]] = Inr ([''a''], [[(''a'', ''1'')]])"
    by code_simp
qed

text \<open>
  C10, as stated, fails on the input with the lines \<open>a,\<close> and \<open>1,2\<close>: the header has an
  empty second field, which \<open>production_data_viewer.tsx\<close> drops (and then fails for lack
  of two names) and \<open>data-table-viewer.html\<close> keeps as a column.
\<close>

theorem C10_empty_header_counterexample:
  "parseData JSON_parse ''a,\<newline>1,2'' = Throw unrecognized \<and>
   parseData_html JSON_parse ''a,\<newline>1,2'' = Result [JObj [(''a'', JStr ''1''), ([], JStr ''2'')]] ''CSV''"
proof
  show "parseData JSON_parse ''a,\<newline>1,2'' = Throw unrecognized" by code_simp
  show "parseData_html JSON_parse ''a,\<newline>1,2'' = Result [JObj [(''a'', JStr ''1''), ([], JStr ''2'')]] ''CSV''"
    by code_simp
qed

text \<open>
  C10, amended. The two \<open>parseData\<close> functions return the same outcome (both null, both
  failing, or the same rows under the same label) for every input text that
  \<open>sanitizeInput\<close> leaves unchanged, on which \<open>JSON.parse\<close> gives the same result before and
  after trimming, that yields at most 1000 JSON elements, and that, when it is not JSON
  and \<open>data-table-viewer.html\<close> parses it as delimited text, has at most 1000 data lines
  and no empty cleaned header field.
\<close>

theorem C10_agreement:
  assumes "sanitizeInput (trim data) = trim data"
      and "trim data \<noteq> [] \<longrightarrow> parse_json data = parse_json (trim data)"
      and "\<forall>j. trim data \<noteq> [] \<and> parse_json data = Some j \<longrightarrow> length (arrayData j) \<le> MAX_ROWS_DISPLAY"
      and "trim data \<noteq> [] \<and> parse_json data = None \<and> 1 < length (lines_of_html data) \<and>
           0 < snd (sniff (hd (lines_of_html data))) \<longrightarrow>
             length (lines_of_html data) \<le> MAX_ROWS_DISPLAY + 1 \<and>
             [] \<notin> set (fields (fst (sniff (hd (lines_of_html data)))) (hd (lines_of_html data)))"
  shows "agree (parseData parse_json data) (parseData_html parse_json data)"
proof (cases "trim data = []")
  case True
  then show ?thesis by (simp add: parseData_def parseData_html_def)
next
  case ne: False
  show ?thesis
  proof (cases "parse_json data")
    case (Some j)
    with assms(1,2) ne have "parse_json (sanitizeInput (trim data)) = Some j" by simp
    with ne have "parseData parse_json data = Result (take MAX_ROWS_DISPLAY (arrayData j)) ''JSON''"
      by (rule parseData_json)
    moreover from ne Some have "parseData_html parse_json data = Result (arrayData j) ''JSON''"
      by (rule parseData_html_json)
    moreover from assms(3) ne Some have "take MAX_ROWS_DISPLAY (arrayData j) = arrayData j" by simp
    ultimately show ?thesis by simp
  next
    case None
    with assms(1,2) ne have none: "parse_json (sanitizeInput (trim data)) = None" by simp
    let ?ls = "non_blank_lines (trim data)"
    let ?d = "fst (sniff (hd ?ls))"
    from assms(1) have ls: "lines_of data = ?ls" by (simp add: lines_of_def)
    have h: "parseData_html parse_json data =
        (if 1 < length ?ls \<and> 0 < snd (sniff (hd ?ls))
         then Result (map (\<lambda>line. JObj (row_object (fields ?d (hd ?ls)) (fields ?d line))) (drop 1 ?ls))
                (typeMap ?d)
         else Throw unrecognized_html)"
      by (simp add: parseData_html_delimited[where data=data and parse_json=parse_json, OF ne None])
    show ?thesis
    proof (cases "1 < length ?ls \<and> 0 < snd (sniff (hd ?ls))")
      case False
      then have "parseData parse_json data = Throw unrecognized"
        by (auto simp add: parseData_delimited[where data=data and parse_json=parse_json, OF ne none] ls)
      with False h show ?thesis by simp
    next
      case True
      with assms(4) ne None have len: "length ?ls \<le> MAX_ROWS_DISPLAY + 1"
        and full: "[] \<notin> set (fields ?d (hd ?ls))"
        by (simp_all add: lines_of_html_def)
      from full have hs: "header_names (hd ?ls) = fields ?d (hd ?ls)"
        by (auto simp add: header_names_def filter_id_conv)
      from len have tk: "take MAX_ROWS_DISPLAY (drop (Suc 0) ?ls) = drop (Suc 0) ?ls"
        by simp
      from True have two: "1 < length (fields ?d (hd ?ls))"
        by (simp add: length_fields sniff_count)
      from True two have "parseData parse_json data =
          Result (map (\<lambda>line. JObj (row_object (fields ?d (hd ?ls)) (fields ?d line))) (drop 1 ?ls))
            (typeMap ?d)"
        by (simp add: parseData_delimited[where data=data and parse_json=parse_json, OF ne none] ls hs tk)
      with True h show ?thesis by simp
    qed
  qed
qed

theorem C10_agreement_witness:
  \<open>agree (parseData JSON_parse ''name,age\<newline>John,30\<newline>Jane,25'')
         (parseData_html JSON_parse ''name,age\<newline>John,30\<newline>Jane,25'') \<and>
   JSON_parse ''name,age\<newline>John,30\<newline>Jane,25'' = None \<and>
   1 < length (lines_of_html ''name,age\<newline>John,30\<newline>Jane,25'') \<and>
   0 < snd (sniff (hd (lines_of_html ''name,age\<newline>John,30\<newline>Jane,25''))) \<and>
   agree (parseData JSON_parse ''{"a":",","b":1}'') (parseData_html JSON_parse ''{"a":",","b":1}'') \<and>
   JSON_parse ''{"a":",","b":1}'' = Some (JObj [(''a'', JStr '',''), (''b'', JNum 1)]) \<and>
   agree (parseData JSON_parse ''  '') (parseData_html JSON_parse ''  '') \<and>
   trim ''  '' = []\<close>
proof -
  have h1: "sanitizeInput (trim ''name,age\<newline>John,30\<newline>Jane,25'') = trim ''name,age\<newline>John,30\<newline>Jane,25''"
    by code_simp
  have h2: "JSON_parse ''name,age\<newline>John,30\<newline>Jane,25'' = JSON_parse (trim ''name,age\<newline>John,30\<newline>Jane,25'')"
    by code_simp
  have h3: "JSON_parse ''name,age\<newline>John,30\<newline>Jane,25'' = None" by code_simp
  have h4: "length (lines_of_html ''name,age\<newline>John,30\<newline>Jane,25'') \<le> MAX_ROWS_DISPLAY + 1"
    by code_simp
  have h5: "[] \<notin> set (fields (fst (sniff (hd (lines_of_html ''name,age\<newline>John,30\<newline>Jane,25''))))
               (hd (lines_of_html ''name,age\<newline>John,30\<newline>Jane,25'')))"
    by code_simp
  have h6: "1 < length (lines_of_html ''name,age\<newline>John,30\<newline>Jane,25'')" by code_simp
  have h7: "0 < snd (sniff (hd (lines_of_html ''name,age\<newline>John,30\<newline>Jane,25'')))" by code_simp
  have e2: "trim ''name,age\<newline>John,30\<newline>Jane,25'' \<noteq> [] \<longrightarrow>
      JSON_parse ''name,age\<newline>John,30\<newline>Jane,25'' = JSON_parse (trim ''name,age\<newline>John,30\<newline>Jane,25'')"
    by (intro impI) (rule h2)
  have e3: "\<forall>j. trim ''name,age\<newline>John,30\<newline>Jane,25'' \<noteq> [] \<and>
      JSON_parse ''name,age\<newline>John,30\<newline>Jane,25'' = Some j \<longrightarrow> length (arrayData j) \<le> MAX_ROWS_DISPLAY"
    by (simp add: h3)
  have e4: "trim ''name,age\<newline>John,30\<newline>Jane,25'' \<noteq> [] \<and>
      JSON_parse ''name,age\<newline>John,30\<newline>Jane,25'' = None \<and>
      1 < length (lines_of_html ''name,age\<newline>John,30\<newline>Jane,25'') \<and>
      0 < snd (sniff (hd (lines_of_html ''name,age\<newline>John,30\<newline>Jane,25''))) \<longrightarrow>
        length (lines_of_html ''name,age\<newline>John,30\<newline>Jane,25'') \<le> MAX_ROWS_DISPLAY + 1 \<and>
        [] \<notin> set (fields (fst (sniff (hd (lines_of_html ''name,age\<newline>John,30\<newline>Jane,25''))))
                   (hd (lines_of_html ''name,age\<newline>John,30\<newline>Jane,25'')))"
    by (intro impI conjI h4 h5)
  note a1 = C10_agreement[OF h1 e2 e3 e4]
  have j1: \<open>sanitizeInput (trim ''{"a":",","b":1}'') = trim ''{"a":",","b":1}''\<close> by code_simp
  have j2: \<open>JSON_parse ''{"a":",","b":1}'' = JSON_parse (trim ''{"a":",","b":1}'')\<close> by code_simp
  have j3: \<open>JSON_parse ''{"a":",","b":1}'' = Some (JObj [(''a'', JStr '',''), (''b'', JNum 1)])\<close>
    by code_simp
  have f2: \<open>trim ''{"a":",","b":1}'' \<noteq> [] \<longrightarrow>
      JSON_parse ''{"a":",","b":1}'' = JSON_parse (trim ''{"a":",","b":1}'')\<close>
    by (intro impI) (rule j2)
  have f3: \<open>\<forall>j. trim ''{"a":",","b":1}'' \<noteq> [] \<and> JSON_parse ''{"a":",","b":1}'' = Some j \<longrightarrow>
      length (arrayData j) \<le> MAX_ROWS_DISPLAY\<close>
    by (auto simp add: j3 MAX_ROWS_DISPLAY_def)
  have f4: \<open>trim ''{"a":",","b":1}'' \<noteq> [] \<and> JSON_parse ''{"a":",","b":1}'' = None \<and>
      1 < length (lines_of_html ''{"a":",","b":1}'') \<and>
      0 < snd (sniff (hd (lines_of_html ''{"a":",","b":1}''))) \<longrightarrow>
        length (lines_of_html ''{"a":",","b":1}'') \<le> MAX_ROWS_DISPLAY + 1 \<and>
        [] \<notin> set (fields (fst (sniff (hd (lines_of_html ''{"a":",","b":1}''))))
                   (hd (lines_of_html ''{"a":",","b":1}'')))\<close>
    by (simp add: j3)
  note a2 = C10_agreement[OF j1 f2 f3 f4]
  have b1: "trim ''  '' = []" by code_simp
  have b2: "sanitizeInput (trim ''  '') = trim ''  ''" by code_simp
  have c2: "trim ''  '' \<noteq> [] \<longrightarrow> JSON_parse ''  '' = JSON_parse (trim ''  '')"
    by (simp add: b1)
  have c3: "\<forall>j. trim ''  '' \<noteq> [] \<and> JSON_parse ''  '' = Some j \<longrightarrow>
      length (arrayData j) \<le> MAX_ROWS_DISPLAY"
    by (simp add: b1)
  have c4: "trim ''  '' \<noteq> [] \<and> JSON_parse ''  '' = None \<and>
      1 < length (lines_of_html ''  '') \<and> 0 < snd (sniff (hd (lines_of_html ''  ''))) \<longrightarrow>
        length (lines_of_html ''  '') \<le> MAX_ROWS_DISPLAY + 1 \<and>
        [] \<notin> set (fields (fst (sniff (hd (lines_of_html ''  '')))) (hd (lines_of_html ''  '')))"
    by (simp add: b1)
  note a3 = C10_agreement[OF b2 c2 c3 c4]
  from a1 h3 h6 h7 a2 j3 a3 b1 show ?thesis by (intro conjI)
qed

end
